theory Spec2Isabelle
  imports Main "HOL-Library.Sublist" "HOL-Library.Multiset"
begin

section \<open>Python values used by the calendar bridge\<close>

text \<open>
  A naive \<open>datetime\<close> is a point on the local wall clock. It is represented by the number
  of microseconds since 0001-01-01T00:00:00, which is the scale on which CPython adds a
  \<open>timedelta\<close> and compares two values. CPython's range check (years 1 to 9999) is left out.
\<close>

type_synonym datetime = int

definition timedelta_days :: "int \<Rightarrow> int" where
  \<comment> \<open>\<open>timedelta(days=n)\<close>, in microseconds\<close>
  "timedelta_days n = n * 86400000000"

definition py_str :: "string option \<Rightarrow> string" where
  \<comment> \<open>\<open>str(x)\<close> of a bridged string that may be \<open>None\<close>\<close>
  "py_str x = (case x of None \<Rightarrow> ''None'' | Some s \<Rightarrow> s)"

definition truthy :: "string option \<Rightarrow> bool" where
  \<comment> \<open>\<open>if x:\<close> for \<open>x : str | None\<close>: neither \<open>None\<close> nor the empty string\<close>
  "truthy x = (case x of None \<Rightarrow> False | Some s \<Rightarrow> s \<noteq> [])"

definition or_empty :: "string option \<Rightarrow> string" where
  \<comment> \<open>\<open>x or ""\<close>\<close>
  "or_empty x = (if truthy x then py_str x else [])"

definition str_if :: "string option \<Rightarrow> string option" where
  \<comment> \<open>\<open>str(x) if x else None\<close>\<close>
  "str_if x = (if truthy x then Some (py_str x) else None)"

section \<open>The native calendar subsystem (EventKit)\<close>

text \<open>
  EventKit is outside the repository. Its objects are records of the properties the bridge
  reads and writes; an \<open>NSDate\<close> is an absolute instant in microseconds, an \<open>NSURL\<close> and an
  \<open>NSError\<close> are the strings they print as. The constants \<open>EKSpanThisEvent = 0\<close> and
  \<open>EKSpanFutureEvents = 1\<close> of \<open>calendar.py\<close> are the two values of \<open>EKSpan\<close>.
\<close>

type_synonym NSDate = int
type_synonym NSURL = string
type_synonym NSError = string

datatype EKSpan = EKSpanThisEvent | EKSpanFutureEvents

record EKCalendar =
  calendarIdentifier :: string
  title :: string

datatype EKAlarm = alarmWithRelativeOffset int

datatype EKRecurrenceFrequency =
  EKRecurrenceFrequencyDaily | EKRecurrenceFrequencyWeekly
  | EKRecurrenceFrequencyMonthly | EKRecurrenceFrequencyYearly

record EKRecurrenceRule =
  frequency :: EKRecurrenceFrequency
  interval :: int
  recurrenceEnd :: "NSDate option"

text \<open>
  \<open>alarms()\<close> and \<open>recurrenceRules()\<close> may answer \<open>nil\<close> for "none"; the bridge reads both
  through \<open>... or []\<close>, so \<open>nil\<close> and the empty array are one value here.
\<close>

record EKEvent =
  eventIdentifier :: "string option"
  title :: "string option"
  startDate :: NSDate
  endDate :: NSDate
  isAllDay :: bool
  location :: "string option"
  notes' :: "string option"
  URL :: "NSURL option"
  calendar :: "EKCalendar option"
  alarms :: "EKAlarm list"
  recurrenceRules :: "EKRecurrenceRule list"

definition hasRecurrenceRules :: "EKEvent \<Rightarrow> bool" where
  "hasRecurrenceRules ekevent = (recurrenceRules ekevent \<noteq> [])"

text \<open>The setters of an event object change the one property they name.\<close>

definition setTitle :: "string \<Rightarrow> EKEvent \<Rightarrow> EKEvent" where
  "setTitle v ekevent = ekevent\<lparr>EKEvent.title := Some v\<rparr>"

definition setStartDate :: "NSDate \<Rightarrow> EKEvent \<Rightarrow> EKEvent" where
  "setStartDate v ekevent = ekevent\<lparr>startDate := v\<rparr>"

definition setEndDate :: "NSDate \<Rightarrow> EKEvent \<Rightarrow> EKEvent" where
  "setEndDate v ekevent = ekevent\<lparr>endDate := v\<rparr>"

definition setAllDay :: "bool \<Rightarrow> EKEvent \<Rightarrow> EKEvent" where
  "setAllDay v ekevent = ekevent\<lparr>isAllDay := v\<rparr>"

definition setLocation :: "string \<Rightarrow> EKEvent \<Rightarrow> EKEvent" where
  "setLocation v ekevent = ekevent\<lparr>location := Some v\<rparr>"

definition setNotes :: "string \<Rightarrow> EKEvent \<Rightarrow> EKEvent" where
  "setNotes v ekevent = ekevent\<lparr>notes' := Some v\<rparr>"

definition setURL :: "NSURL option \<Rightarrow> EKEvent \<Rightarrow> EKEvent" where
  "setURL v ekevent = ekevent\<lparr>URL := v\<rparr>"

definition setCalendar :: "EKCalendar \<Rightarrow> EKEvent \<Rightarrow> EKEvent" where
  "setCalendar v ekevent = ekevent\<lparr>calendar := Some v\<rparr>"

definition addAlarm :: "EKAlarm \<Rightarrow> EKEvent \<Rightarrow> EKEvent" where
  "addAlarm a ekevent = ekevent\<lparr>alarms := alarms ekevent @ [a]\<rparr>"

definition removeAlarm :: "EKAlarm \<Rightarrow> EKEvent \<Rightarrow> EKEvent" where
  "removeAlarm a ekevent = ekevent\<lparr>alarms := remove1 a (alarms ekevent)\<rparr>"

definition addRecurrenceRule :: "EKRecurrenceRule \<Rightarrow> EKEvent \<Rightarrow> EKEvent" where
  "addRecurrenceRule r ekevent = ekevent\<lparr>recurrenceRules := recurrenceRules ekevent @ [r]\<rparr>"

definition removeRecurrenceRule :: "EKRecurrenceRule \<Rightarrow> EKEvent \<Rightarrow> EKEvent" where
  "removeRecurrenceRule r ekevent =
     ekevent\<lparr>recurrenceRules := remove1 r (recurrenceRules ekevent)\<rparr>"

text \<open>
  What the bridge asks of the subsystem, for a store in state \<open>'s\<close>. Every theorem below
  holds for every value of this record, that is, whatever the host answers.
  \<^item> \<open>eventsMatchingPredicate s a b cs\<close> is the answer to the predicate built from the window
    \<open>a\<close>, \<open>b\<close> and the calendars \<open>cs\<close> (\<open>None\<close> for all calendars); the answer may be \<open>nil\<close>.
  \<^item> \<open>saveEvent_span_error\<close> and \<open>removeEvent_span_error\<close> answer \<open>(success, error)\<close> and leave
    the store in a new state; a save also leaves the event object as the host wrote it
    (a first save gives it its identifier).
  \<^item> \<open>eventWithEventStore\<close> is the blank event a create starts from.
  \<^item> \<open>URLWithString\<close> is \<open>nil\<close> for a string that is no URL.
  \<^item> \<open>timestamp\<close> and \<open>fromtimestamp\<close> are the conversions between the local wall clock and
    absolute time (\<open>datetime.timestamp\<close>, \<open>datetime.fromtimestamp\<close>).
  \<^item> \<open>str_lower\<close> is Python's \<open>str.lower\<close>, which lower-cases every cased letter of Unicode.
    A \<open>str\<close> is held as the bytes of its UTF-8 encoding; \<open>kw in s\<close> is then \<open>sublist kw s\<close>,
    since an encoded string occurs in another one only at the boundaries of characters.
\<close>

record 's EventKit =
  calendarsForEntityType :: "'s \<Rightarrow> EKCalendar list"
  defaultCalendarForNewEvents :: "'s \<Rightarrow> EKCalendar option"
  eventWithIdentifier :: "'s \<Rightarrow> string \<Rightarrow> EKEvent option"
  eventsMatchingPredicate ::
    "'s \<Rightarrow> NSDate \<Rightarrow> NSDate \<Rightarrow> EKCalendar list option \<Rightarrow> EKEvent list option"
  saveEvent_span_error ::
    "'s \<Rightarrow> EKEvent \<Rightarrow> EKSpan \<Rightarrow> (bool \<times> NSError option) \<times> EKEvent \<times> 's"
  removeEvent_span_error :: "'s \<Rightarrow> EKEvent \<Rightarrow> EKSpan \<Rightarrow> (bool \<times> NSError option) \<times> 's"
  eventWithEventStore :: "'s \<Rightarrow> EKEvent"
  URLWithString :: "string \<Rightarrow> NSURL option"
  timestamp :: "datetime \<Rightarrow> NSDate"
  fromtimestamp :: "NSDate \<Rightarrow> datetime"
  str_lower :: "string \<Rightarrow> string"

section \<open>Errors of \<open>calendar.py\<close>\<close>

text \<open>
  \<open>CalendarError\<close> is raised with one of four messages: no default calendar, and the
  failure of a create, an update or a delete followed by the host's error.
  \<open>NoSuchCalendarError\<close> and \<open>NoSuchEventError\<close> are its subclasses and carry the name
  and the identifier.
\<close>

datatype message =
  NoDefaultCalendar | CreateFailed string | UpdateFailed string | DeleteFailed string

datatype error =
  CalendarError message | NoSuchCalendarError string | NoSuchEventError string

fun is_NoSuchCalendarError :: "error \<Rightarrow> bool" where
  "is_NoSuchCalendarError (NoSuchCalendarError name) = True"
| "is_NoSuchCalendarError _ = False"

section \<open>\<open>CalendarManager\<close>: calendars\<close>

definition find_calendar :: "'s EventKit \<Rightarrow> 's \<Rightarrow> string option \<Rightarrow> error + EKCalendar" where
  "find_calendar K store name =
     (case name of
        None \<Rightarrow>
          (case defaultCalendarForNewEvents K store of
             None \<Rightarrow> Inl (CalendarError NoDefaultCalendar)
           | Some default' \<Rightarrow> Inr default')
      | Some n \<Rightarrow>
          (case find (\<lambda>cal. EKCalendar.title cal = n) (calendarsForEntityType K store) of
             Some cal \<Rightarrow> Inr cal
           | None \<Rightarrow> Inl (NoSuchCalendarError n)))"

section \<open>\<open>models.py\<close>\<close>

datatype Frequency = daily | weekly | monthly | yearly

record RecurrenceRule =
  frequency :: Frequency
  interval :: int
  end_date :: "datetime option"

record Event =
  identifier' :: string
  title :: string
  start_time :: datetime
  end_time :: datetime
  calendar_name :: string
  location :: "string option"
  notes' :: "string option"
  url :: "string option"
  all_day :: bool
  is_recurring :: bool

record CreateEventRequest =
  title :: string
  start_time :: datetime
  end_time :: datetime
  calendar_name :: "string option"
  location :: "string option"
  notes' :: "string option"
  alarms_minutes_offsets :: "int list option"
  url :: "string option"
  all_day :: bool
  recurrence_rule :: "RecurrenceRule option"

record UpdateEventRequest =
  title :: "string option"
  start_time :: "datetime option"
  end_time :: "datetime option"
  calendar_name :: "string option"
  location :: "string option"
  notes' :: "string option"
  alarms_minutes_offsets :: "int list option"
  url :: "string option"
  all_day :: "bool option"
  recurrence_rule :: "RecurrenceRule option"

text \<open>
  Every field of \<open>UpdateEventRequest\<close> is declared \<open>T | None = None\<close>. A caller either
  leaves a field out, or supplies \<open>null\<close>, or supplies a value; the field then holds the
  default \<open>None\<close>, or \<open>None\<close>, or the value.
\<close>

datatype 'a supplied = Absent | Null | Given 'a

definition field_or_None :: "'a supplied \<Rightarrow> 'a option" where
  "field_or_None a = (case a of Absent \<Rightarrow> None | Null \<Rightarrow> None | Given v \<Rightarrow> Some v)"

definition from_ekevent :: "'s EventKit \<Rightarrow> EKEvent \<Rightarrow> Event" where
  "from_ekevent K ekevent =
     \<lparr> identifier' = py_str (eventIdentifier ekevent),
       Event.title = py_str (Some (or_empty (EKEvent.title ekevent))),
       Event.start_time = fromtimestamp K (startDate ekevent),
       Event.end_time = fromtimestamp K (endDate ekevent),
       Event.calendar_name =
         (case calendar ekevent of Some cal \<Rightarrow> EKCalendar.title cal | None \<Rightarrow> []),
       Event.location = str_if (EKEvent.location ekevent),
       Event.notes' = str_if (EKEvent.notes' ekevent),
       Event.url = (case URL ekevent of Some u \<Rightarrow> Some u | None \<Rightarrow> None),
       Event.all_day = isAllDay ekevent,
       is_recurring = hasRecurrenceRules ekevent \<rparr>"

subsection \<open>\<open>Event.__str__\<close>\<close>

text \<open>
  \<open>strftime\<close> for the directives the two formats use, for the years 1000 to 9999 (where
  every platform prints \<open>%Y\<close> with four digits). The date of a \<open>datetime\<close> is found from its
  day number as CPython's \<open>_ord2ymd\<close> finds it.
\<close>

definition DAYS_IN_MONTH :: "int list" where
  "DAYS_IN_MONTH = [-1, 31, 28, 31, 30, 31, 30, 31, 31, 30, 31, 30, 31]"

definition DAYS_BEFORE_MONTH :: "int list" where
  "DAYS_BEFORE_MONTH = [-1, 0, 31, 59, 90, 120, 151, 181, 212, 243, 273, 304, 334]"

definition ord2ymd :: "int \<Rightarrow> int \<times> int \<times> int" where
  "ord2ymd ordinal =
     (let n = ordinal - 1;
          n400 = n div 146097; n = n mod 146097;
          year = n400 * 400 + 1;
          n100 = n div 36524; n = n mod 36524;
          n4 = n div 1461; n = n mod 1461;
          n1 = n div 365; n = n mod 365;
          year = year + n100 * 100 + n4 * 4 + n1
      in if n1 = 4 \<or> n100 = 4 then (year - 1, 12, 31)
         else
           let leapyear = (n1 = 3 \<and> (n4 \<noteq> 24 \<or> n100 = 3));
               month = (n + 50) div 32;
               preceding = DAYS_BEFORE_MONTH ! nat month + (if month > 2 \<and> leapyear then 1 else 0)
           in if preceding > n
              then let month = month - 1;
                       preceding = preceding
                         - (DAYS_IN_MONTH ! nat month + (if month = 2 \<and> leapyear then 1 else 0))
                   in (year, month, n - preceding + 1)
              else (year, month, n - preceding + 1))"

definition digit :: "int \<Rightarrow> char" where
  "digit d = ''0123456789'' ! nat d"

fun zero_pad :: "nat \<Rightarrow> int \<Rightarrow> string" where
  \<comment> \<open>the last \<open>w\<close> decimal digits of a number that has at most \<open>w\<close>\<close>
  "zero_pad 0 n = []"
| "zero_pad (Suc w) n = zero_pad w (n div 10) @ [digit (n mod 10)]"

definition directive :: "datetime \<Rightarrow> char \<Rightarrow> string" where
  "directive dt c =
     (let days = dt div 86400000000;
          seconds = (dt mod 86400000000) div 1000000;
          ymd = ord2ymd (days + 1)
      in if c = CHR ''Y'' then zero_pad 4 (fst ymd)
         else if c = CHR ''m'' then zero_pad 2 (fst (snd ymd))
         else if c = CHR ''d'' then zero_pad 2 (snd (snd ymd))
         else if c = CHR ''H'' then zero_pad 2 (seconds div 3600)
         else if c = CHR ''M'' then zero_pad 2 ((seconds mod 3600) div 60)
         else [CHR ''%'', c])"

fun strftime :: "datetime \<Rightarrow> string \<Rightarrow> string" where
  "strftime dt [] = []"
| "strftime dt [c] = [c]"
| "strftime dt (c # d # fmt) =
     (if c = CHR ''%'' then directive dt d @ strftime dt fmt else c # strftime dt (d # fmt))"

fun join :: "string \<Rightarrow> string list \<Rightarrow> string" where
  "join sep [] = []"
| "join sep [p] = p"
| "join sep (p # q # parts) = p @ sep @ join sep (q # parts)"

definition str_Event :: "Event \<Rightarrow> string" where
  "str_Event self =
     (let time_fmt = (if Event.all_day self then ''%Y-%m-%d'' else ''%Y-%m-%d %H:%M'');
          start = strftime (Event.start_time self) time_fmt;
          end' = strftime (Event.end_time self) time_fmt;
          parts = [Event.title self @ '' ('' @ start @ '' ~ '' @ end' @ '')''];
          parts = (if Event.calendar_name self \<noteq> []
                   then parts @ [''['' @ Event.calendar_name self @ '']''] else parts);
          parts = (if truthy (Event.location self)
                   then parts @ [''@ '' @ py_str (Event.location self)] else parts);
          parts = parts @ [''ID: '' @ identifier' self]
      in join '' | '' parts)"

section \<open>\<open>CalendarManager\<close>: events\<close>

definition to_nsdate :: "'s EventKit \<Rightarrow> datetime \<Rightarrow> NSDate" where
  "to_nsdate K dt = timestamp K dt"

definition freq_map :: "Frequency \<Rightarrow> EKRecurrenceFrequency" where
  "freq_map f =
     (case f of
        daily \<Rightarrow> EKRecurrenceFrequencyDaily
      | weekly \<Rightarrow> EKRecurrenceFrequencyWeekly
      | monthly \<Rightarrow> EKRecurrenceFrequencyMonthly
      | yearly \<Rightarrow> EKRecurrenceFrequencyYearly)"

definition to_ek_recurrence :: "'s EventKit \<Rightarrow> RecurrenceRule \<Rightarrow> EKRecurrenceRule" where
  "to_ek_recurrence K rule =
     (let end' = (case end_date rule of None \<Rightarrow> None | Some d \<Rightarrow> Some (timestamp K d))
      in \<lparr> EKRecurrenceRule.frequency = freq_map (RecurrenceRule.frequency rule),
           EKRecurrenceRule.interval = RecurrenceRule.interval rule,
           recurrenceEnd = end' \<rparr>)"

definition find_event :: "'s EventKit \<Rightarrow> 's \<Rightarrow> string \<Rightarrow> error + EKEvent" where
  "find_event K store event_id =
     (case eventWithIdentifier K store event_id of
        None \<Rightarrow> Inl (NoSuchEventError event_id)
      | Some ekevent \<Rightarrow> Inr ekevent)"

subsection \<open>Reading\<close>

definition list_events ::
  "'s EventKit \<Rightarrow> 's \<Rightarrow> datetime \<Rightarrow> datetime \<Rightarrow> string option \<Rightarrow> error + Event list" where
  "list_events K store start end' calendar_name' =
     (case (if truthy calendar_name'
            then (case find_calendar K store calendar_name' of
                    Inl err \<Rightarrow> Inl err
                  | Inr cal \<Rightarrow> Inr (Some [cal]))
            else Inr None) of
        Inl err \<Rightarrow> Inl err
      | Inr calendars \<Rightarrow>
          (let ns_start = to_nsdate K start;
               ns_end = to_nsdate K end'
           in case eventsMatchingPredicate K store ns_start ns_end calendars of
                None \<Rightarrow> Inr []
              | Some ek_events \<Rightarrow>
                  if ek_events = [] then Inr []
                  else Inr (sort_key Event.start_time (map (from_ekevent K) ek_events))))"



definition search_events ::
  "'s EventKit \<Rightarrow> 's \<Rightarrow> datetime \<Rightarrow> string \<Rightarrow> string option \<Rightarrow> int \<Rightarrow> int
     \<Rightarrow> error + Event list" where
  \<comment> \<open>\<open>now\<close> is what \<open>datetime.now()\<close> answers\<close>
  "search_events K store now keyword calendar_name' days_back days_forward =
     (let start = now - timedelta_days days_back;
          end' = now + timedelta_days days_forward
      in case list_events K store start end' calendar_name' of
           Inl err \<Rightarrow> Inl err
         | Inr events \<Rightarrow>
             (let kw = str_lower K keyword
              in Inr (filter
                   (\<lambda>e. sublist kw (str_lower K (or_empty (Some (Event.title e))))
                      \<or> sublist kw (str_lower K (or_empty (Event.notes' e)))
                      \<or> sublist kw (str_lower K (or_empty (Event.location e))))
                   events)))"

subsection \<open>Creating\<close>


subsection \<open>Updating\<close>

text \<open>
  \<open>update_event\<close> in two parts: the setters it applies to the event it found
  (\<open>calendar.py\<close>, lines 194 to 224), and the lookup and the commit around them.
\<close>

definition when_supplied ::
  "'a option \<Rightarrow> ('a \<Rightarrow> EKEvent \<Rightarrow> EKEvent) \<Rightarrow> EKEvent \<Rightarrow> EKEvent" where
  \<comment> \<open>\<open>if req.field is not None: <apply the setter to it>\<close>\<close>
  "when_supplied field setter ekevent =
     (case field of None \<Rightarrow> ekevent | Some v \<Rightarrow> setter v ekevent)"

definition update_event_setters ::
  "'s EventKit \<Rightarrow> 's \<Rightarrow> UpdateEventRequest \<Rightarrow> EKEvent \<Rightarrow> error + EKEvent" where
  "update_event_setters K store req ekevent =
     (let ekevent = when_supplied (UpdateEventRequest.title req) setTitle ekevent;
          ekevent = when_supplied (UpdateEventRequest.start_time req)
                      (\<lambda>v. setStartDate (to_nsdate K v)) ekevent;
          ekevent = when_supplied (UpdateEventRequest.end_time req)
                      (\<lambda>v. setEndDate (to_nsdate K v)) ekevent;
          ekevent = when_supplied (UpdateEventRequest.all_day req) setAllDay ekevent;
          ekevent = when_supplied (UpdateEventRequest.location req) setLocation ekevent;
          ekevent = when_supplied (UpdateEventRequest.notes' req) setNotes ekevent;
          ekevent = when_supplied (UpdateEventRequest.url req)
                      (\<lambda>v. setURL (URLWithString K v)) ekevent
      in case (case UpdateEventRequest.calendar_name req of
                 None \<Rightarrow> Inr ekevent
               | Some v \<Rightarrow>
                   (case find_calendar K store (Some v) of
                      Inl err \<Rightarrow> Inl err
                    | Inr cal \<Rightarrow> Inr (setCalendar cal ekevent))) of
           Inl err \<Rightarrow> Inl err
         | Inr ekevent \<Rightarrow>
             (let ekevent =
                    when_supplied (UpdateEventRequest.alarms_minutes_offsets req)
                      (\<lambda>offsets ekevent.
                         fold (\<lambda>minutes. addAlarm (alarmWithRelativeOffset (- 60 * minutes)))
                           offsets (fold removeAlarm (alarms ekevent) ekevent))
                      ekevent;
                  ekevent =
                    when_supplied (UpdateEventRequest.recurrence_rule req)
                      (\<lambda>rule ekevent.
                         addRecurrenceRule (to_ek_recurrence K rule)
                           (fold removeRecurrenceRule (recurrenceRules ekevent) ekevent))
                      ekevent
              in Inr ekevent))"

definition update_event ::
  "'s EventKit \<Rightarrow> 's \<Rightarrow> string \<Rightarrow> UpdateEventRequest \<Rightarrow> (error + Event) \<times> 's" where
  "update_event K store event_id req =
     (case find_event K store event_id of
        Inl err \<Rightarrow> (Inl err, store)
      | Inr ekevent \<Rightarrow>
          (case update_event_setters K store req ekevent of
             Inl err \<Rightarrow> (Inl err, store)
           | Inr ekevent \<Rightarrow>
               (let span = (if hasRecurrenceRules ekevent
                            then EKSpanFutureEvents else EKSpanThisEvent)
                in case saveEvent_span_error K store ekevent span of
                     ((success, error), ekevent, store') \<Rightarrow>
                       if \<not> success
                       then (Inl (CalendarError (UpdateFailed (py_str error))), store')
                       else (Inr (from_ekevent K ekevent), store'))))"

subsection \<open>Deleting\<close>

definition delete_event :: "'s EventKit \<Rightarrow> 's \<Rightarrow> string \<Rightarrow> (error + string) \<times> 's" where
  "delete_event K store event_id =
     (case find_event K store event_id of
        Inl err \<Rightarrow> (Inl err, store)
      | Inr ekevent \<Rightarrow>
          (let title' = py_str (EKEvent.title ekevent);
               span = (if hasRecurrenceRules ekevent
                       then EKSpanFutureEvents else EKSpanThisEvent)
           in case removeEvent_span_error K store ekevent span of
                ((success, error), store') \<Rightarrow>
                  if \<not> success
                  then (Inl (CalendarError (DeleteFailed (py_str error))), store')
                  else (Inr title', store')))"

section \<open>Two stores to run the bridge against\<close>

text \<open>
  \<open>recording K\<close> answers as \<open>K\<close> does and keeps, next to the state of \<open>K\<close>, the list of
  the commits it was asked for, each with the event and the span it received.
\<close>

datatype commit = Saved EKEvent EKSpan | Removed EKEvent EKSpan

definition recording :: "'s EventKit \<Rightarrow> ('s \<times> commit list) EventKit" where
  "recording K =
     \<lparr> calendarsForEntityType = (\<lambda>sl. calendarsForEntityType K (fst sl)),
       defaultCalendarForNewEvents = (\<lambda>sl. defaultCalendarForNewEvents K (fst sl)),
       eventWithIdentifier = (\<lambda>sl. eventWithIdentifier K (fst sl)),
       eventsMatchingPredicate = (\<lambda>sl. eventsMatchingPredicate K (fst sl)),
       saveEvent_span_error = (\<lambda>sl ekevent span.
         case saveEvent_span_error K (fst sl) ekevent span of
           (answer, ekevent', s') \<Rightarrow> (answer, ekevent', (s', snd sl @ [Saved ekevent span]))),
       removeEvent_span_error = (\<lambda>sl ekevent span.
         case removeEvent_span_error K (fst sl) ekevent span of
           (answer, s') \<Rightarrow> (answer, (s', snd sl @ [Removed ekevent span]))),
       eventWithEventStore = (\<lambda>sl. eventWithEventStore K (fst sl)),
       URLWithString = URLWithString K,
       timestamp = timestamp K,
       fromtimestamp = fromtimestamp K,
       str_lower = str_lower K \<rparr>"

text \<open>
  \<open>in_memory\<close> is a store that holds its calendars and events in lists. It answers a
  window with the held events that overlap it, accepts every commit unless \<open>refusal\<close>
  holds the error to answer with, and runs in UTC. Its texts are ASCII, on which
  \<open>str.lower\<close> changes the letters A to Z and nothing else.
\<close>

definition ascii_lower :: "char \<Rightarrow> char" where
  "ascii_lower c =
     (case map_of (zip ''ABCDEFGHIJKLMNOPQRSTUVWXYZ'' ''abcdefghijklmnopqrstuvwxyz'') c of
        None \<Rightarrow> c
      | Some l \<Rightarrow> l)"

record memory =
  held_calendars :: "EKCalendar list"
  held_default :: "EKCalendar option"
  held_events :: "EKEvent list"
  refusal :: "NSError option"

definition blank_event :: EKEvent where
  "blank_event =
     \<lparr> eventIdentifier = None, EKEvent.title = None, startDate = 0, endDate = 0,
       isAllDay = False, EKEvent.location = None, EKEvent.notes' = None, URL = None,
       calendar = None, alarms = [], recurrenceRules = [] \<rparr>"

definition in_memory :: "memory EventKit" where
  "in_memory =
     \<lparr> calendarsForEntityType = held_calendars,
       defaultCalendarForNewEvents = held_default,
       eventWithIdentifier = (\<lambda>s event_id.
         find (\<lambda>e. eventIdentifier e = Some event_id) (held_events s)),
       eventsMatchingPredicate = (\<lambda>s a b calendars.
         Some (filter
           (\<lambda>e. startDate e \<le> b \<and> a \<le> endDate e
              \<and> (case calendars of
                    None \<Rightarrow> True
                  | Some cs \<Rightarrow> (case calendar e of None \<Rightarrow> False | Some c \<Rightarrow> c \<in> set cs)))
           (held_events s))),
       saveEvent_span_error = (\<lambda>s ekevent span.
         case refusal s of
           Some err \<Rightarrow> ((False, Some err), ekevent, s)
         | None \<Rightarrow>
             ((True, None), ekevent,
              s\<lparr>held_events :=
                  filter (\<lambda>e. eventIdentifier e \<noteq> eventIdentifier ekevent) (held_events s)
                    @ [ekevent]\<rparr>)),
       removeEvent_span_error = (\<lambda>s ekevent span.
         case refusal s of
           Some err \<Rightarrow> ((False, Some err), s)
         | None \<Rightarrow>
             ((True, None),
              s\<lparr>held_events :=
                  filter (\<lambda>e. eventIdentifier e \<noteq> eventIdentifier ekevent) (held_events s)\<rparr>)),
       eventWithEventStore = (\<lambda>s. blank_event),
       URLWithString = Some,
       timestamp = (\<lambda>dt. dt - 62135596800000000),
       fromtimestamp = (\<lambda>t. t + 62135596800000000),
       str_lower = map ascii_lower \<rparr>"

text \<open>The calendars, events and stores of the examples.\<close>

definition Work :: EKCalendar where
  "Work = \<lparr> calendarIdentifier = ''c1'', EKCalendar.title = ''Work'' \<rparr>"

definition Home :: EKCalendar where
  "Home = \<lparr> calendarIdentifier = ''c2'', EKCalendar.title = ''Home'' \<rparr>"

definition Work2 :: EKCalendar where
  "Work2 = \<lparr> calendarIdentifier = ''c3'', EKCalendar.title = ''Work'' \<rparr>"

definition standup :: EKEvent where
  \<comment> \<open>2026-02-12 10:00 to 10:30, every day, with an alarm 15 minutes before\<close>
  "standup =
     \<lparr> eventIdentifier = Some ''E1'', EKEvent.title = Some ''Standup'',
       startDate = 1770890400000000, endDate = 1770892200000000,
       isAllDay = False, EKEvent.location = Some ''Room 4'', EKEvent.notes' = None, URL = None,
       calendar = Some Work, alarms = [alarmWithRelativeOffset (- 900)],
       recurrenceRules =
         [\<lparr> EKRecurrenceRule.frequency = EKRecurrenceFrequencyDaily,
            EKRecurrenceRule.interval = 1, recurrenceEnd = None \<rparr>] \<rparr>"

definition dentist :: EKEvent where
  \<comment> \<open>2026-02-12 09:00 to 09:45, once\<close>
  "dentist =
     \<lparr> eventIdentifier = Some ''E2'', EKEvent.title = Some ''Dentist'',
       startDate = 1770886800000000, endDate = 1770889500000000,
       isAllDay = False, EKEvent.location = None, EKEvent.notes' = Some ''bring FORMS'',
       URL = None, calendar = Some Home, alarms = [], recurrenceRules = [] \<rparr>"

definition store1 :: memory where
  "store1 =
     \<lparr> held_calendars = [Work, Home, Work2], held_default = Some Home,
       held_events = [standup, dentist], refusal = None \<rparr>"

definition store0 :: memory where
  \<comment> \<open>a host with no default calendar\<close>
  "store0 = store1\<lparr>held_default := None\<rparr>"

definition no_change :: UpdateEventRequest where
  "no_change =
     \<lparr> UpdateEventRequest.title = None, UpdateEventRequest.start_time = None,
       UpdateEventRequest.end_time = None, UpdateEventRequest.calendar_name = None,
       UpdateEventRequest.location = None, UpdateEventRequest.notes' = None,
       UpdateEventRequest.alarms_minutes_offsets = None, UpdateEventRequest.url = None,
       UpdateEventRequest.all_day = None, UpdateEventRequest.recurrence_rule = None \<rparr>"


text \<open>Requests and a store that refuses commits, for the examples.\<close>

definition retitle :: UpdateEventRequest where
  "retitle = no_change\<lparr>UpdateEventRequest.title := Some ''Daily'',
                        UpdateEventRequest.alarms_minutes_offsets := Some [5, 10]\<rparr>"

definition every_other_week :: RecurrenceRule where
  "every_other_week =
     \<lparr> RecurrenceRule.frequency = weekly, RecurrenceRule.interval = 2, end_date = None \<rparr>"

definition make_weekly :: UpdateEventRequest where
  "make_weekly = no_change\<lparr>UpdateEventRequest.recurrence_rule := Some every_other_week\<rparr>"

definition nulls :: UpdateEventRequest where
  "nulls = no_change\<lparr>UpdateEventRequest.alarms_minutes_offsets := field_or_None Null,
                      UpdateEventRequest.recurrence_rule := field_or_None Null\<rparr>"

definition null_texts :: UpdateEventRequest where
  "null_texts = no_change\<lparr>UpdateEventRequest.title := field_or_None Null,
                           UpdateEventRequest.location := field_or_None Null\<rparr>"

definition refusing :: memory where
  "refusing = store1\<lparr>refusal := Some ''denied''\<rparr>"

definition replace_both :: UpdateEventRequest where
  "replace_both = no_change\<lparr>UpdateEventRequest.alarms_minutes_offsets := field_or_None (Given []),
                             UpdateEventRequest.recurrence_rule := field_or_None (Given every_other_week)\<rparr>"

definition window_start :: datetime where
  \<comment> \<open>2026-02-12 00:00\<close>
  "window_start = 63906451200000000"

definition window_end :: datetime where
  \<comment> \<open>2026-02-13 00:00\<close>
  "window_end = 63906537600000000"

definition noon :: datetime where
  \<comment> \<open>2026-02-12 12:00\<close>
  "noon = 63906494400000000"



section \<open>The recording store answers as the store it wraps\<close>

lemma calendars_recording [simp]:
  "calendarsForEntityType (recording K) sl = calendarsForEntityType K (fst sl)"
  "defaultCalendarForNewEvents (recording K) sl = defaultCalendarForNewEvents K (fst sl)"
  "eventWithIdentifier (recording K) sl = eventWithIdentifier K (fst sl)"
  "eventsMatchingPredicate (recording K) sl = eventsMatchingPredicate K (fst sl)"
  "URLWithString (recording K) = URLWithString K"
  "timestamp (recording K) = timestamp K"
  "fromtimestamp (recording K) = fromtimestamp K"
  "str_lower (recording K) = str_lower K"
  by (simp_all add: recording_def)

lemma commits_recording [simp]:
  "saveEvent_span_error (recording K) sl ekevent span =
     (case saveEvent_span_error K (fst sl) ekevent span of
        (answer, ekevent', s') \<Rightarrow> (answer, ekevent', (s', snd sl @ [Saved ekevent span])))"
  "removeEvent_span_error (recording K) sl ekevent span =
     (case removeEvent_span_error K (fst sl) ekevent span of
        (answer, s') \<Rightarrow> (answer, (s', snd sl @ [Removed ekevent span])))"
  by (simp_all add: recording_def)

lemma find_calendar_recording [simp]:
  "find_calendar (recording K) sl name = find_calendar K (fst sl) name"
  by (simp add: find_calendar_def cong: option.case_cong)

lemma find_event_recording [simp]:
  "find_event (recording K) sl event_id = find_event K (fst sl) event_id"
  by (simp add: find_event_def)

lemma to_ek_recurrence_recording [simp]:
  "to_ek_recurrence (recording K) rule = to_ek_recurrence K rule"
  by (simp add: to_ek_recurrence_def cong: option.case_cong)

lemma update_event_setters_recording [simp]:
  "update_event_setters (recording K) sl req ekevent = update_event_setters K (fst sl) req ekevent"
  by (simp add: update_event_setters_def to_nsdate_def cong: option.case_cong sum.case_cong)

section \<open>Calendar resolution\<close>

text \<open>
  C4, as the code has it. With no name, \<open>_find_calendar\<close> answers the host's default
  calendar for new events, and raises the plain \<open>CalendarError\<close> ("no default calendar")
  when the host has none. With a name, it answers the first calendar in enumeration order
  whose title is equal to the name, character for character, and raises
  \<open>NoSuchCalendarError(name)\<close> when no title is equal to it.
\<close>

theorem find_calendar_resolution:
  "(defaultCalendarForNewEvents K store = Some c \<longrightarrow> find_calendar K store None = Inr c)
   \<and> (defaultCalendarForNewEvents K store = None
        \<longrightarrow> find_calendar K store None = Inl (CalendarError NoDefaultCalendar))
   \<and> (i < length (calendarsForEntityType K store)
        \<and> EKCalendar.title (calendarsForEntityType K store ! i) = name
        \<and> (\<forall>j < i. EKCalendar.title (calendarsForEntityType K store ! j) \<noteq> name)
        \<longrightarrow> find_calendar K store (Some name) = Inr (calendarsForEntityType K store ! i))
   \<and> ((\<forall>c \<in> set (calendarsForEntityType K store). EKCalendar.title c \<noteq> name)
        \<longrightarrow> find_calendar K store (Some name) = Inl (NoSuchCalendarError name))"
proof (intro conjI impI)
  assume "defaultCalendarForNewEvents K store = Some c"
  then show "find_calendar K store None = Inr c"
    by (simp add: find_calendar_def)
next
  assume "defaultCalendarForNewEvents K store = None"
  then show "find_calendar K store None = Inl (CalendarError NoDefaultCalendar)"
    by (simp add: find_calendar_def)
next
  let ?cs = "calendarsForEntityType K store"
  assume "i < length ?cs \<and> EKCalendar.title (?cs ! i) = name
          \<and> (\<forall>j < i. EKCalendar.title (?cs ! j) \<noteq> name)"
  then have "find (\<lambda>cal. EKCalendar.title cal = name) ?cs = Some (?cs ! i)"
    unfolding find_Some_iff by blast
  then show "find_calendar K store (Some name) = Inr (?cs ! i)"
    by (simp add: find_calendar_def)
next
  assume "\<forall>c \<in> set (calendarsForEntityType K store). EKCalendar.title c \<noteq> name"
  then have "find (\<lambda>cal. EKCalendar.title cal = name) (calendarsForEntityType K store) = None"
    unfolding find_None_iff by blast
  then show "find_calendar K store (Some name) = Inl (NoSuchCalendarError name)"
    by (simp add: find_calendar_def)
qed

theorem find_calendar_resolution_witness:
  "find_calendar in_memory store1 None = Inr Home
   \<and> find_calendar in_memory store0 None = Inl (CalendarError NoDefaultCalendar)
   \<and> find_calendar in_memory store1 (Some ''Work'') = Inr Work
   \<and> Work \<noteq> Work2
   \<and> find_calendar in_memory store1 (Some ''work'') = Inl (NoSuchCalendarError ''work'')"
proof -
  have cs: "calendarsForEntityType in_memory store1 = [Work, Home, Work2]"
    by (simp add: in_memory_def store1_def)
  have "find_calendar in_memory store1 None = Inr Home"
    using find_calendar_resolution [of in_memory store1 Home]
    by (simp add: in_memory_def store1_def)
  moreover have "find_calendar in_memory store0 None = Inl (CalendarError NoDefaultCalendar)"
    using find_calendar_resolution [of in_memory store0]
    by (simp add: in_memory_def store0_def store1_def)
  moreover have "find_calendar in_memory store1 (Some ''Work'') = Inr Work"
    using find_calendar_resolution [of in_memory store1 Home 0 "''Work''"]
    by (simp add: cs Work_def)
  moreover have "Work \<noteq> Work2"
    by (simp add: Work_def Work2_def)
  moreover have "find_calendar in_memory store1 (Some ''work'') = Inl (NoSuchCalendarError ''work'')"
    using find_calendar_resolution [of in_memory store1 Home 0 "''work''"]
    by (simp add: cs Work_def Home_def Work2_def)
  ultimately show ?thesis by blast
qed

text \<open>
  C4 as stated fails on a host without a default calendar: the error raised for an absent
  name is not a \<open>NoSuchCalendarError\<close>.
\<close>

theorem find_calendar_no_default_counterexample:
  "defaultCalendarForNewEvents in_memory store0 = None
   \<and> find_calendar in_memory store0 None = Inl (CalendarError NoDefaultCalendar)
   \<and> \<not> is_NoSuchCalendarError (CalendarError NoDefaultCalendar)"
  by (simp add: find_calendar_def in_memory_def store0_def store1_def)

section \<open>Updating\<close>

subsection \<open>What the setters leave behind\<close>

lemma fold_remove1_self: "fold remove1 xs (xs @ ys) = ys"
  by (induction xs) simp_all

lemma fold_removeAlarm:
  "fold removeAlarm as ekevent = ekevent\<lparr>alarms := fold remove1 as (alarms ekevent)\<rparr>"
  by (induction as arbitrary: ekevent) (simp_all add: removeAlarm_def)

lemma fold_removeRecurrenceRule:
  "fold removeRecurrenceRule rs ekevent =
     ekevent\<lparr>recurrenceRules := fold remove1 rs (recurrenceRules ekevent)\<rparr>"
  by (induction rs arbitrary: ekevent) (simp_all add: removeRecurrenceRule_def)

lemma remove_all_alarms: "fold removeAlarm (alarms ekevent) ekevent = ekevent\<lparr>alarms := []\<rparr>"
  using fold_remove1_self [of "alarms ekevent" "[]"] by (simp add: fold_removeAlarm)

lemma remove_all_rules:
  "fold removeRecurrenceRule (recurrenceRules ekevent) ekevent = ekevent\<lparr>recurrenceRules := []\<rparr>"
  using fold_remove1_self [of "recurrenceRules ekevent" "[]"]
  by (simp add: fold_removeRecurrenceRule)

lemma fold_addAlarm:
  "fold (\<lambda>minutes. addAlarm (f minutes)) offsets ekevent =
     ekevent\<lparr>alarms := alarms ekevent @ map f offsets\<rparr>"
  by (induction offsets arbitrary: ekevent) (simp_all add: addAlarm_def)

lemma set_when_supplied:
  "when_supplied a setTitle ekevent =
     ekevent\<lparr>EKEvent.title := (case a of None \<Rightarrow> EKEvent.title ekevent | Some v \<Rightarrow> Some v)\<rparr>"
  "when_supplied b (\<lambda>v. setStartDate (g v)) ekevent =
     ekevent\<lparr>startDate := (case b of None \<Rightarrow> startDate ekevent | Some v \<Rightarrow> g v)\<rparr>"
  "when_supplied b (\<lambda>v. setEndDate (g v)) ekevent =
     ekevent\<lparr>endDate := (case b of None \<Rightarrow> endDate ekevent | Some v \<Rightarrow> g v)\<rparr>"
  "when_supplied c setAllDay ekevent =
     ekevent\<lparr>isAllDay := (case c of None \<Rightarrow> isAllDay ekevent | Some v \<Rightarrow> v)\<rparr>"
  "when_supplied a setLocation ekevent =
     ekevent\<lparr>EKEvent.location :=
       (case a of None \<Rightarrow> EKEvent.location ekevent | Some v \<Rightarrow> Some v)\<rparr>"
  "when_supplied a setNotes ekevent =
     ekevent\<lparr>EKEvent.notes' :=
       (case a of None \<Rightarrow> EKEvent.notes' ekevent | Some v \<Rightarrow> Some v)\<rparr>"
  "when_supplied a (\<lambda>v. setURL (h v)) ekevent =
     ekevent\<lparr>URL := (case a of None \<Rightarrow> URL ekevent | Some v \<Rightarrow> h v)\<rparr>"
  by (simp_all add: when_supplied_def setTitle_def setStartDate_def setEndDate_def
        setAllDay_def setLocation_def setNotes_def setURL_def split: option.split)

lemma replace_when_supplied:
  "when_supplied d
     (\<lambda>offsets e. fold (\<lambda>minutes. addAlarm (f minutes)) offsets (fold removeAlarm (alarms e) e))
     ekevent =
     ekevent\<lparr>alarms := (case d of None \<Rightarrow> alarms ekevent | Some offsets \<Rightarrow> map f offsets)\<rparr>"
  "when_supplied r
     (\<lambda>rule e. addRecurrenceRule (k rule) (fold removeRecurrenceRule (recurrenceRules e) e))
     ekevent =
     ekevent\<lparr>recurrenceRules :=
       (case r of None \<Rightarrow> recurrenceRules ekevent | Some rule \<Rightarrow> [k rule])\<rparr>"
  by (simp_all add: when_supplied_def remove_all_alarms remove_all_rules fold_addAlarm
        addRecurrenceRule_def split: option.split)

lemma update_event_setters_eq:
  "update_event_setters K store req ekevent =
     (case (case UpdateEventRequest.calendar_name req of
              None \<Rightarrow> Inr (calendar ekevent)
            | Some v \<Rightarrow>
                (case find_calendar K store (Some v) of
                   Inl err \<Rightarrow> Inl err
                 | Inr cal \<Rightarrow> Inr (Some cal))) of
        Inl err \<Rightarrow> Inl err
      | Inr cal \<Rightarrow>
          Inr (ekevent\<lparr>
            EKEvent.title := (case UpdateEventRequest.title req of
                                None \<Rightarrow> EKEvent.title ekevent | Some v \<Rightarrow> Some v),
            startDate := (case UpdateEventRequest.start_time req of
                            None \<Rightarrow> startDate ekevent | Some v \<Rightarrow> to_nsdate K v),
            endDate := (case UpdateEventRequest.end_time req of
                          None \<Rightarrow> endDate ekevent | Some v \<Rightarrow> to_nsdate K v),
            isAllDay := (case UpdateEventRequest.all_day req of
                           None \<Rightarrow> isAllDay ekevent | Some v \<Rightarrow> v),
            EKEvent.location := (case UpdateEventRequest.location req of
                                   None \<Rightarrow> EKEvent.location ekevent | Some v \<Rightarrow> Some v),
            EKEvent.notes' := (case UpdateEventRequest.notes' req of
                                 None \<Rightarrow> EKEvent.notes' ekevent | Some v \<Rightarrow> Some v),
            URL := (case UpdateEventRequest.url req of
                      None \<Rightarrow> URL ekevent | Some v \<Rightarrow> URLWithString K v),
            calendar := cal,
            alarms := (case UpdateEventRequest.alarms_minutes_offsets req of
                         None \<Rightarrow> alarms ekevent
                       | Some offsets \<Rightarrow>
                           map (\<lambda>minutes. alarmWithRelativeOffset (- 60 * minutes)) offsets),
            recurrenceRules := (case UpdateEventRequest.recurrence_rule req of
                                  None \<Rightarrow> recurrenceRules ekevent
                                | Some rule \<Rightarrow> [to_ek_recurrence K rule])\<rparr>))"
proof (cases "UpdateEventRequest.calendar_name req")
  case None
  then show ?thesis
    by (simp add: update_event_setters_def set_when_supplied replace_when_supplied Let_def cong: option.case_cong)
next
  case (Some v)
  show ?thesis
  proof (cases "find_calendar K store (Some v)")
    case (Inl err)
    with Some show ?thesis
      by (simp add: update_event_setters_def)
  next
    case (Inr cal)
    with Some show ?thesis
      by (simp add: update_event_setters_def set_when_supplied replace_when_supplied
            setCalendar_def Let_def cong: option.case_cong)
  qed
qed

lemma update_event_Inr:
  assumes "eventWithIdentifier K store event_id = Some ekevent"
    and "update_event K store event_id req = (Inr result, store')"
  shows "\<exists>edited saved error.
           update_event_setters K store req ekevent = Inr edited
           \<and> saveEvent_span_error K store edited
                (if recurrenceRules edited = [] then EKSpanThisEvent else EKSpanFutureEvents)
              = ((True, error), saved, store')
           \<and> result = from_ekevent K saved"
  using assms
  by (auto simp: update_event_def find_event_def hasRecurrenceRules_def
        split: sum.splits prod.splits if_splits)

lemma update_event_setters_fields:
  assumes "update_event_setters K store req ekevent = Inr edited"
  shows
    "eventIdentifier edited = eventIdentifier ekevent"
    "EKEvent.title edited =
       (case UpdateEventRequest.title req of None \<Rightarrow> EKEvent.title ekevent | Some v \<Rightarrow> Some v)"
    "startDate edited =
       (case UpdateEventRequest.start_time req of
          None \<Rightarrow> startDate ekevent | Some v \<Rightarrow> to_nsdate K v)"
    "endDate edited =
       (case UpdateEventRequest.end_time req of
          None \<Rightarrow> endDate ekevent | Some v \<Rightarrow> to_nsdate K v)"
    "isAllDay edited =
       (case UpdateEventRequest.all_day req of None \<Rightarrow> isAllDay ekevent | Some v \<Rightarrow> v)"
    "EKEvent.location edited =
       (case UpdateEventRequest.location req of
          None \<Rightarrow> EKEvent.location ekevent | Some v \<Rightarrow> Some v)"
    "EKEvent.notes' edited =
       (case UpdateEventRequest.notes' req of
          None \<Rightarrow> EKEvent.notes' ekevent | Some v \<Rightarrow> Some v)"
    "URL edited =
       (case UpdateEventRequest.url req of None \<Rightarrow> URL ekevent | Some v \<Rightarrow> URLWithString K v)"
    "case UpdateEventRequest.calendar_name req of
       None \<Rightarrow> calendar edited = calendar ekevent
     | Some v \<Rightarrow> \<exists>cal. find_calendar K store (Some v) = Inr cal \<and> calendar edited = Some cal"
    "alarms edited =
       (case UpdateEventRequest.alarms_minutes_offsets req of
          None \<Rightarrow> alarms ekevent
        | Some offsets \<Rightarrow> map (\<lambda>minutes. alarmWithRelativeOffset (- 60 * minutes)) offsets)"
    "recurrenceRules edited =
       (case UpdateEventRequest.recurrence_rule req of
          None \<Rightarrow> recurrenceRules ekevent | Some rule \<Rightarrow> [to_ek_recurrence K rule])"
proof -
  let ?edits = "\<lambda>cal. ekevent\<lparr>
        EKEvent.title := (case UpdateEventRequest.title req of
                            None \<Rightarrow> EKEvent.title ekevent | Some v \<Rightarrow> Some v),
        startDate := (case UpdateEventRequest.start_time req of
                        None \<Rightarrow> startDate ekevent | Some v \<Rightarrow> to_nsdate K v),
        endDate := (case UpdateEventRequest.end_time req of
                      None \<Rightarrow> endDate ekevent | Some v \<Rightarrow> to_nsdate K v),
        isAllDay := (case UpdateEventRequest.all_day req of
                       None \<Rightarrow> isAllDay ekevent | Some v \<Rightarrow> v),
        EKEvent.location := (case UpdateEventRequest.location req of
                               None \<Rightarrow> EKEvent.location ekevent | Some v \<Rightarrow> Some v),
        EKEvent.notes' := (case UpdateEventRequest.notes' req of
                             None \<Rightarrow> EKEvent.notes' ekevent | Some v \<Rightarrow> Some v),
        URL := (case UpdateEventRequest.url req of
                  None \<Rightarrow> URL ekevent | Some v \<Rightarrow> URLWithString K v),
        calendar := cal,
        alarms := (case UpdateEventRequest.alarms_minutes_offsets req of
                     None \<Rightarrow> alarms ekevent
                   | Some offsets \<Rightarrow>
                       map (\<lambda>minutes. alarmWithRelativeOffset (- 60 * minutes)) offsets),
        recurrenceRules := (case UpdateEventRequest.recurrence_rule req of
                              None \<Rightarrow> recurrenceRules ekevent
                            | Some rule \<Rightarrow> [to_ek_recurrence K rule])\<rparr>"
  have "\<exists>cal. edited = ?edits cal
          \<and> (case UpdateEventRequest.calendar_name req of
                None \<Rightarrow> cal = calendar ekevent
              | Some v \<Rightarrow> \<exists>c. find_calendar K store (Some v) = Inr c \<and> cal = Some c)"
  proof (cases "UpdateEventRequest.calendar_name req")
    case None
    with assms show ?thesis
      by (simp add: update_event_setters_eq)
  next
    case (Some v)
    with assms show ?thesis
      by (cases "find_calendar K store (Some v)") (simp_all add: update_event_setters_eq)
  qed
  then obtain cal where edited: "edited = ?edits cal"
    and cal: "case UpdateEventRequest.calendar_name req of
                None \<Rightarrow> cal = calendar ekevent
              | Some v \<Rightarrow> \<exists>c. find_calendar K store (Some v) = Inr c \<and> cal = Some c"
    by blast
  show "case UpdateEventRequest.calendar_name req of
       None \<Rightarrow> calendar edited = calendar ekevent
     | Some v \<Rightarrow> \<exists>cal. find_calendar K store (Some v) = Inr cal \<and> calendar edited = Some cal"
    using cal by (cases "UpdateEventRequest.calendar_name req") (simp_all add: edited)
  show "eventIdentifier edited = eventIdentifier ekevent"
    "EKEvent.title edited =
       (case UpdateEventRequest.title req of None \<Rightarrow> EKEvent.title ekevent | Some v \<Rightarrow> Some v)"
    "startDate edited =
       (case UpdateEventRequest.start_time req of
          None \<Rightarrow> startDate ekevent | Some v \<Rightarrow> to_nsdate K v)"
    "endDate edited =
       (case UpdateEventRequest.end_time req of
          None \<Rightarrow> endDate ekevent | Some v \<Rightarrow> to_nsdate K v)"
    "isAllDay edited =
       (case UpdateEventRequest.all_day req of None \<Rightarrow> isAllDay ekevent | Some v \<Rightarrow> v)"
    "EKEvent.location edited =
       (case UpdateEventRequest.location req of
          None \<Rightarrow> EKEvent.location ekevent | Some v \<Rightarrow> Some v)"
    "EKEvent.notes' edited =
       (case UpdateEventRequest.notes' req of
          None \<Rightarrow> EKEvent.notes' ekevent | Some v \<Rightarrow> Some v)"
    "URL edited =
       (case UpdateEventRequest.url req of None \<Rightarrow> URL ekevent | Some v \<Rightarrow> URLWithString K v)"
    "alarms edited =
       (case UpdateEventRequest.alarms_minutes_offsets req of
          None \<Rightarrow> alarms ekevent
        | Some offsets \<Rightarrow> map (\<lambda>minutes. alarmWithRelativeOffset (- 60 * minutes)) offsets)"
    "recurrenceRules edited =
       (case UpdateEventRequest.recurrence_rule req of
          None \<Rightarrow> recurrenceRules ekevent | Some rule \<Rightarrow> [to_ek_recurrence K rule])"
    by (simp_all add: edited)
qed

subsection \<open>The example store\<close>

lemma found_E1: "eventWithIdentifier in_memory store1 ''E1'' = Some standup"
  by (simp add: in_memory_def store1_def standup_def)

lemma found_E2: "eventWithIdentifier in_memory store1 ''E2'' = Some dentist"
  by (simp add: in_memory_def store1_def standup_def dentist_def)

lemma found_E3: "eventWithIdentifier in_memory store1 ''E3'' = None"
  by (simp add: in_memory_def store1_def standup_def dentist_def)

lemma in_memory_commits:
  "refusal s = None \<Longrightarrow> saveEvent_span_error in_memory s ekevent span =
     ((True, None), ekevent,
      s\<lparr>held_events :=
          filter (\<lambda>e. eventIdentifier e \<noteq> eventIdentifier ekevent) (held_events s) @ [ekevent]\<rparr>)"
  "refusal s = None \<Longrightarrow> removeEvent_span_error in_memory s ekevent span =
     ((True, None),
      s\<lparr>held_events := filter (\<lambda>e. eventIdentifier e \<noteq> eventIdentifier ekevent) (held_events s)\<rparr>)"
  "refusal s = Some err \<Longrightarrow> saveEvent_span_error in_memory s ekevent span =
     ((False, Some err), ekevent, s)"
  "refusal s = Some err \<Longrightarrow> removeEvent_span_error in_memory s ekevent span =
     ((False, Some err), s)"
  by (simp_all add: in_memory_def)


lemma store1_simps:
  "held_calendars store1 = [Work, Home, Work2]" "held_default store1 = Some Home"
  "held_events store1 = [standup, dentist]" "refusal store1 = None"
  by (simp_all add: store1_def)

lemma setters_make_weekly:
  "update_event_setters in_memory store1 make_weekly dentist =
     Inr (dentist\<lparr>recurrenceRules :=
       [\<lparr> EKRecurrenceRule.frequency = EKRecurrenceFrequencyWeekly,
          EKRecurrenceRule.interval = 2, recurrenceEnd = None \<rparr>]\<rparr>)"
  by (simp add: update_event_setters_eq make_weekly_def no_change_def to_ek_recurrence_def
        every_other_week_def freq_map_def)

lemma setters_no_change:
  "update_event_setters K store no_change ekevent = Inr ekevent"
  by (simp add: update_event_setters_eq no_change_def)

subsection \<open>Partial update\<close>

text \<open>
  C1, as the code has it. A field that is left out of the request and a field supplied as
  \<open>null\<close> are both stored as \<open>None\<close>. Let \<open>update_event\<close> find the event and return its
  result. Then the event it handed to the host for saving differs from the event it found
  in the fields that hold a value only: a field of the request that is not \<open>None\<close> has
  overwritten the event's property, whatever the property held, and a field that is \<open>None\<close>
  has left the property as it was. A calendar name is overwritten with the calendar the
  name resolves to, a url with the \<open>NSURL\<close> made from it, the alarms with one alarm per
  offset, the recurrence rules with the one rule supplied. The event's identifier is never
  touched.
\<close>

theorem update_event_touches_only_supplied_fields:
  assumes "eventWithIdentifier K store event_id = Some ekevent"
    and "update_event K store event_id req = (Inr result, store')"
  shows "field_or_None Absent = (None :: 'a option)
         \<and> field_or_None Null = (None :: 'a option)
         \<and> (\<exists>edited saved error.
           saveEvent_span_error K store edited
             (if recurrenceRules edited = [] then EKSpanThisEvent else EKSpanFutureEvents)
             = ((True, error), saved, store')
           \<and> result = from_ekevent K saved
           \<and> eventIdentifier edited = eventIdentifier ekevent
           \<and> EKEvent.title edited =
               (case UpdateEventRequest.title req of
                  None \<Rightarrow> EKEvent.title ekevent | Some v \<Rightarrow> Some v)
           \<and> startDate edited =
               (case UpdateEventRequest.start_time req of
                  None \<Rightarrow> startDate ekevent | Some v \<Rightarrow> to_nsdate K v)
           \<and> endDate edited =
               (case UpdateEventRequest.end_time req of
                  None \<Rightarrow> endDate ekevent | Some v \<Rightarrow> to_nsdate K v)
           \<and> isAllDay edited =
               (case UpdateEventRequest.all_day req of
                  None \<Rightarrow> isAllDay ekevent | Some v \<Rightarrow> v)
           \<and> EKEvent.location edited =
               (case UpdateEventRequest.location req of
                  None \<Rightarrow> EKEvent.location ekevent | Some v \<Rightarrow> Some v)
           \<and> EKEvent.notes' edited =
               (case UpdateEventRequest.notes' req of
                  None \<Rightarrow> EKEvent.notes' ekevent | Some v \<Rightarrow> Some v)
           \<and> URL edited =
               (case UpdateEventRequest.url req of
                  None \<Rightarrow> URL ekevent | Some v \<Rightarrow> URLWithString K v)
           \<and> (case UpdateEventRequest.calendar_name req of
                 None \<Rightarrow> calendar edited = calendar ekevent
               | Some v \<Rightarrow> \<exists>cal. find_calendar K store (Some v) = Inr cal
                                 \<and> calendar edited = Some cal)
           \<and> alarms edited =
               (case UpdateEventRequest.alarms_minutes_offsets req of
                  None \<Rightarrow> alarms ekevent
                | Some offsets \<Rightarrow>
                    map (\<lambda>minutes. alarmWithRelativeOffset (- 60 * minutes)) offsets)
           \<and> recurrenceRules edited =
               (case UpdateEventRequest.recurrence_rule req of
                  None \<Rightarrow> recurrenceRules ekevent
                | Some rule \<Rightarrow> [to_ek_recurrence K rule]))"
proof -
  from update_event_Inr [OF assms] obtain edited saved error
    where setters: "update_event_setters K store req ekevent = Inr edited"
      and save: "saveEvent_span_error K store edited
             (if recurrenceRules edited = [] then EKSpanThisEvent else EKSpanFutureEvents)
             = ((True, error), saved, store')"
      and result: "result = from_ekevent K saved"
    by blast
  from save result update_event_setters_fields [OF setters]
  have "\<exists>edited saved error.
           saveEvent_span_error K store edited
             (if recurrenceRules edited = [] then EKSpanThisEvent else EKSpanFutureEvents)
             = ((True, error), saved, store')
           \<and> result = from_ekevent K saved
           \<and> eventIdentifier edited = eventIdentifier ekevent
           \<and> EKEvent.title edited =
               (case UpdateEventRequest.title req of
                  None \<Rightarrow> EKEvent.title ekevent | Some v \<Rightarrow> Some v)
           \<and> startDate edited =
               (case UpdateEventRequest.start_time req of
                  None \<Rightarrow> startDate ekevent | Some v \<Rightarrow> to_nsdate K v)
           \<and> endDate edited =
               (case UpdateEventRequest.end_time req of
                  None \<Rightarrow> endDate ekevent | Some v \<Rightarrow> to_nsdate K v)
           \<and> isAllDay edited =
               (case UpdateEventRequest.all_day req of
                  None \<Rightarrow> isAllDay ekevent | Some v \<Rightarrow> v)
           \<and> EKEvent.location edited =
               (case UpdateEventRequest.location req of
                  None \<Rightarrow> EKEvent.location ekevent | Some v \<Rightarrow> Some v)
           \<and> EKEvent.notes' edited =
               (case UpdateEventRequest.notes' req of
                  None \<Rightarrow> EKEvent.notes' ekevent | Some v \<Rightarrow> Some v)
           \<and> URL edited =
               (case UpdateEventRequest.url req of
                  None \<Rightarrow> URL ekevent | Some v \<Rightarrow> URLWithString K v)
           \<and> (case UpdateEventRequest.calendar_name req of
                 None \<Rightarrow> calendar edited = calendar ekevent
               | Some v \<Rightarrow> \<exists>cal. find_calendar K store (Some v) = Inr cal
                                 \<and> calendar edited = Some cal)
           \<and> alarms edited =
               (case UpdateEventRequest.alarms_minutes_offsets req of
                  None \<Rightarrow> alarms ekevent
                | Some offsets \<Rightarrow>
                    map (\<lambda>minutes. alarmWithRelativeOffset (- 60 * minutes)) offsets)
           \<and> recurrenceRules edited =
               (case UpdateEventRequest.recurrence_rule req of
                  None \<Rightarrow> recurrenceRules ekevent
                | Some rule \<Rightarrow> [to_ek_recurrence K rule])"
    by blast
  then show ?thesis
    by (simp add: field_or_None_def)
qed

lemma update_retitle:
  "update_event in_memory store1 ''E1'' retitle =
     (Inr (from_ekevent in_memory
        (standup\<lparr>EKEvent.title := Some ''Daily'',
                  alarms := [alarmWithRelativeOffset (- 300), alarmWithRelativeOffset (- 600)]\<rparr>)),
      store1\<lparr>held_events := [dentist,
        standup\<lparr>EKEvent.title := Some ''Daily'',
                  alarms := [alarmWithRelativeOffset (- 300), alarmWithRelativeOffset (- 600)]\<rparr>]\<rparr>)"
proof -
  have "update_event_setters in_memory store1 retitle standup =
      Inr (standup\<lparr>EKEvent.title := Some ''Daily'',
                  alarms := [alarmWithRelativeOffset (- 300), alarmWithRelativeOffset (- 600)]\<rparr>)"
    by (simp add: update_event_setters_eq retitle_def no_change_def)
  then show ?thesis
    by (simp add: update_event_def find_event_def found_E1 in_memory_commits store1_simps)
       (simp add: standup_def dentist_def)
qed

theorem update_event_touches_only_supplied_fields_witness:
  "eventWithIdentifier in_memory store1 ''E1'' = Some standup
   \<and> (\<exists>result store'.
         update_event in_memory store1 ''E1'' retitle = (Inr result, store')
         \<and> (\<exists>edited saved error.
               saveEvent_span_error in_memory store1 edited
                 (if recurrenceRules edited = [] then EKSpanThisEvent else EKSpanFutureEvents)
                 = ((True, error), saved, store')
               \<and> result = from_ekevent in_memory saved
               \<and> eventIdentifier edited = eventIdentifier standup
               \<and> EKEvent.title edited = Some ''Daily''
               \<and> startDate edited = startDate standup
               \<and> endDate edited = endDate standup
               \<and> isAllDay edited = isAllDay standup
               \<and> EKEvent.location edited = EKEvent.location standup
               \<and> EKEvent.notes' edited = EKEvent.notes' standup
               \<and> URL edited = URL standup
               \<and> calendar edited = calendar standup
               \<and> alarms edited = [alarmWithRelativeOffset (- 300), alarmWithRelativeOffset (- 600)]
               \<and> recurrenceRules edited = recurrenceRules standup))"
proof -
  have "\<exists>edited saved error.
      saveEvent_span_error in_memory store1 edited
        (if recurrenceRules edited = [] then EKSpanThisEvent else EKSpanFutureEvents)
        = ((True, error), saved, store1\<lparr>held_events := [dentist,
            standup\<lparr>EKEvent.title := Some ''Daily'',
              alarms := [alarmWithRelativeOffset (- 300), alarmWithRelativeOffset (- 600)]\<rparr>]\<rparr>)
      \<and> from_ekevent in_memory
            (standup\<lparr>EKEvent.title := Some ''Daily'',
              alarms := [alarmWithRelativeOffset (- 300), alarmWithRelativeOffset (- 600)]\<rparr>)
          = from_ekevent in_memory saved
      \<and> eventIdentifier edited = eventIdentifier standup
      \<and> EKEvent.title edited = Some ''Daily''
      \<and> startDate edited = startDate standup
      \<and> endDate edited = endDate standup
      \<and> isAllDay edited = isAllDay standup
      \<and> EKEvent.location edited = EKEvent.location standup
      \<and> EKEvent.notes' edited = EKEvent.notes' standup
      \<and> URL edited = URL standup
      \<and> calendar edited = calendar standup
      \<and> alarms edited = [alarmWithRelativeOffset (- 300), alarmWithRelativeOffset (- 600)]
      \<and> recurrenceRules edited = recurrenceRules standup"
    using update_event_touches_only_supplied_fields [OF found_E1 update_retitle]
    by (simp add: retitle_def no_change_def field_or_None_def)
  with found_E1 update_retitle show ?thesis
    by simp
qed

text \<open>
  C1 as stated fails: a title and a location supplied as \<open>null\<close> are present in the request
  and overwrite nothing; the event that is saved is the event that was found.
\<close>

theorem update_event_null_text_counterexample:
  "UpdateEventRequest.title null_texts = field_or_None Null
   \<and> UpdateEventRequest.location null_texts = field_or_None Null
   \<and> eventWithIdentifier in_memory store1 ''E1'' = Some standup
   \<and> snd (snd (update_event (recording in_memory) (store1, []) ''E1'' null_texts))
       = [Saved standup EKSpanFutureEvents]
   \<and> EKEvent.title standup = Some ''Standup''
   \<and> EKEvent.location standup = Some ''Room 4''"
proof -
  have "null_texts = no_change"
    by (simp add: null_texts_def no_change_def field_or_None_def)
  then have "update_event_setters in_memory store1 null_texts standup = Inr standup"
    by (simp add: setters_no_change)
  then have "snd (snd (update_event (recording in_memory) (store1, []) ''E1'' null_texts))
       = [Saved standup EKSpanFutureEvents]"
    by (simp add: update_event_def find_event_def found_E1 hasRecurrenceRules_def
          split: prod.split)
       (simp add: standup_def)
  then show ?thesis
    using found_E1 by (simp add: null_texts_def) (simp add: standup_def)
qed

subsection \<open>Alarms and recurrence\<close>

text \<open>
  C2, as the code has it. \<open>null\<close> and a missing field are both stored as \<open>None\<close>, and \<open>None\<close>
  leaves the alarms and the recurrence rules as they were. A list of offsets (the empty list
  too) replaces the alarms wholesale: the loop over the existing alarms removes every one
  of them, then one alarm per offset is added. A rule replaces the recurrence rules
  wholesale in the same way. So the empty list clears the alarms, and no request clears the
  recurrence.
\<close>

theorem update_event_replaces_alarms_and_rules:
  assumes "eventWithIdentifier K store event_id = Some ekevent"
    and "update_event K store event_id req = (Inr result, store')"
  shows "field_or_None Null = (None :: int list option)
         \<and> field_or_None Null = (None :: RecurrenceRule option)
         \<and> alarms (fold removeAlarm (alarms ekevent) ekevent) = []
         \<and> recurrenceRules (fold removeRecurrenceRule (recurrenceRules ekevent) ekevent) = []
         \<and> (\<exists>edited saved error.
               saveEvent_span_error K store edited
                 (if recurrenceRules edited = [] then EKSpanThisEvent else EKSpanFutureEvents)
                 = ((True, error), saved, store')
               \<and> result = from_ekevent K saved
               \<and> alarms edited =
                   (case UpdateEventRequest.alarms_minutes_offsets req of
                      None \<Rightarrow> alarms ekevent
                    | Some offsets \<Rightarrow>
                        map (\<lambda>minutes. alarmWithRelativeOffset (- 60 * minutes)) offsets)
               \<and> recurrenceRules edited =
                   (case UpdateEventRequest.recurrence_rule req of
                      None \<Rightarrow> recurrenceRules ekevent
                    | Some rule \<Rightarrow> [to_ek_recurrence K rule]))"
proof -
  from update_event_Inr [OF assms] obtain edited saved error
    where setters: "update_event_setters K store req ekevent = Inr edited"
      and save: "saveEvent_span_error K store edited
             (if recurrenceRules edited = [] then EKSpanThisEvent else EKSpanFutureEvents)
             = ((True, error), saved, store')"
      and result: "result = from_ekevent K saved"
    by blast
  have "alarms edited =
          (case UpdateEventRequest.alarms_minutes_offsets req of
             None \<Rightarrow> alarms ekevent
           | Some offsets \<Rightarrow>
               map (\<lambda>minutes. alarmWithRelativeOffset (- 60 * minutes)) offsets)"
    and "recurrenceRules edited =
          (case UpdateEventRequest.recurrence_rule req of
             None \<Rightarrow> recurrenceRules ekevent
           | Some rule \<Rightarrow> [to_ek_recurrence K rule])"
    using update_event_setters_fields [OF setters] by simp_all
  with save result have "\<exists>edited saved error.
      saveEvent_span_error K store edited
        (if recurrenceRules edited = [] then EKSpanThisEvent else EKSpanFutureEvents)
        = ((True, error), saved, store')
      \<and> result = from_ekevent K saved
      \<and> alarms edited =
          (case UpdateEventRequest.alarms_minutes_offsets req of
             None \<Rightarrow> alarms ekevent
           | Some offsets \<Rightarrow>
               map (\<lambda>minutes. alarmWithRelativeOffset (- 60 * minutes)) offsets)
      \<and> recurrenceRules edited =
          (case UpdateEventRequest.recurrence_rule req of
             None \<Rightarrow> recurrenceRules ekevent
           | Some rule \<Rightarrow> [to_ek_recurrence K rule])"
    by blast
  then show ?thesis
    by (simp add: field_or_None_def remove_all_alarms remove_all_rules)
qed

lemma update_replace_both:
  "update_event in_memory store1 ''E1'' replace_both =
     (Inr (from_ekevent in_memory
        (standup\<lparr>alarms := [],
                  recurrenceRules :=
                    [\<lparr> EKRecurrenceRule.frequency = EKRecurrenceFrequencyWeekly,
                       EKRecurrenceRule.interval = 2, recurrenceEnd = None \<rparr>]\<rparr>)),
      store1\<lparr>held_events := [dentist,
        standup\<lparr>alarms := [],
                  recurrenceRules :=
                    [\<lparr> EKRecurrenceRule.frequency = EKRecurrenceFrequencyWeekly,
                       EKRecurrenceRule.interval = 2, recurrenceEnd = None \<rparr>]\<rparr>]\<rparr>)"
proof -
  have "update_event_setters in_memory store1 replace_both standup =
      Inr (standup\<lparr>alarms := [],
                  recurrenceRules :=
                    [\<lparr> EKRecurrenceRule.frequency = EKRecurrenceFrequencyWeekly,
                       EKRecurrenceRule.interval = 2, recurrenceEnd = None \<rparr>]\<rparr>)"
    by (simp add: update_event_setters_eq replace_both_def no_change_def field_or_None_def
          to_ek_recurrence_def every_other_week_def freq_map_def)
  then show ?thesis
    by (simp add: update_event_def find_event_def found_E1 in_memory_commits store1_simps
          hasRecurrenceRules_def)
       (simp add: standup_def dentist_def)
qed

theorem update_event_replaces_alarms_and_rules_witness:
  "eventWithIdentifier in_memory store1 ''E1'' = Some standup
   \<and> alarms standup = [alarmWithRelativeOffset (- 900)]
   \<and> (\<exists>result store'.
         update_event in_memory store1 ''E1'' replace_both = (Inr result, store')
         \<and> (\<exists>edited saved error.
               saveEvent_span_error in_memory store1 edited
                 (if recurrenceRules edited = [] then EKSpanThisEvent else EKSpanFutureEvents)
                 = ((True, error), saved, store')
               \<and> result = from_ekevent in_memory saved
               \<and> alarms edited = []
               \<and> recurrenceRules edited =
                   [\<lparr> EKRecurrenceRule.frequency = EKRecurrenceFrequencyWeekly,
                      EKRecurrenceRule.interval = 2, recurrenceEnd = None \<rparr>]))"
proof -
  have "\<exists>edited saved error.
      saveEvent_span_error in_memory store1 edited
        (if recurrenceRules edited = [] then EKSpanThisEvent else EKSpanFutureEvents)
        = ((True, error), saved, store1\<lparr>held_events := [dentist,
            standup\<lparr>alarms := [],
                      recurrenceRules :=
                        [\<lparr> EKRecurrenceRule.frequency = EKRecurrenceFrequencyWeekly,
                           EKRecurrenceRule.interval = 2, recurrenceEnd = None \<rparr>]\<rparr>]\<rparr>)
      \<and> from_ekevent in_memory
            (standup\<lparr>alarms := [],
                      recurrenceRules :=
                        [\<lparr> EKRecurrenceRule.frequency = EKRecurrenceFrequencyWeekly,
                           EKRecurrenceRule.interval = 2, recurrenceEnd = None \<rparr>]\<rparr>)
          = from_ekevent in_memory saved
      \<and> alarms edited = []
      \<and> recurrenceRules edited =
          [\<lparr> EKRecurrenceRule.frequency = EKRecurrenceFrequencyWeekly,
             EKRecurrenceRule.interval = 2, recurrenceEnd = None \<rparr>]"
    using update_event_replaces_alarms_and_rules [OF found_E1 update_replace_both]
    by (simp add: replace_both_def no_change_def field_or_None_def to_ek_recurrence_def
          every_other_week_def freq_map_def)
  with found_E1 update_replace_both show ?thesis
    by (simp add: standup_def)
qed

text \<open>
  C2 as stated fails: with \<open>null\<close> supplied for the alarms and for the recurrence, the event
  that is saved is the event that was found, its alarm and its rule in place.
\<close>

theorem update_event_null_keeps_counterexample:
  "UpdateEventRequest.alarms_minutes_offsets nulls = field_or_None Null
   \<and> UpdateEventRequest.recurrence_rule nulls = field_or_None Null
   \<and> eventWithIdentifier in_memory store1 ''E1'' = Some standup
   \<and> snd (snd (update_event (recording in_memory) (store1, []) ''E1'' nulls))
       = [Saved standup EKSpanFutureEvents]
   \<and> alarms standup = [alarmWithRelativeOffset (- 900)]
   \<and> recurrenceRules standup =
       [\<lparr> EKRecurrenceRule.frequency = EKRecurrenceFrequencyDaily,
          EKRecurrenceRule.interval = 1, recurrenceEnd = None \<rparr>]"
proof -
  have "nulls = no_change"
    by (simp add: nulls_def no_change_def field_or_None_def)
  then have "update_event_setters in_memory store1 nulls standup = Inr standup"
    by (simp add: setters_no_change)
  then have "snd (snd (update_event (recording in_memory) (store1, []) ''E1'' nulls))
       = [Saved standup EKSpanFutureEvents]"
    by (simp add: update_event_def find_event_def found_E1 hasRecurrenceRules_def
          split: prod.split)
       (simp add: standup_def)
  then show ?thesis
    using found_E1 by (simp add: nulls_def) (simp add: standup_def)
qed


section \<open>The span of a commit\<close>

text \<open>
  C3. When \<open>update_event\<close> has found the event and applied the request, the one commit it
  asks of the host is a save of the edited event with the span "future events" if the
  edited event has a recurrence rule and the span "this event" if it has none. When
  \<open>delete_event\<close> has found the event, the one commit it asks for is a removal of that
  event with the span chosen in the same way from the event as found.
\<close>

theorem update_event_commit_span:
  assumes "eventWithIdentifier K store event_id = Some ekevent"
  shows "(update_event_setters K store req ekevent = Inr edited \<longrightarrow>
            snd (snd (update_event (recording K) (store, log) event_id req)) =
              log @ [Saved edited (if recurrenceRules edited = []
                                   then EKSpanThisEvent else EKSpanFutureEvents)])
         \<and> snd (snd (delete_event (recording K) (store, log) event_id)) =
              log @ [Removed ekevent (if recurrenceRules ekevent = []
                                      then EKSpanThisEvent else EKSpanFutureEvents)]"
  using assms
  by (auto simp: update_event_def delete_event_def find_event_def hasRecurrenceRules_def
        split: prod.splits)

theorem update_event_commit_span_witness:
  "eventWithIdentifier in_memory store1 ''E2'' = Some dentist
   \<and> recurrenceRules dentist = []
   \<and> snd (snd (update_event (recording in_memory) (store1, []) ''E2'' no_change)) =
       [Saved dentist EKSpanThisEvent]
   \<and> snd (snd (update_event (recording in_memory) (store1, []) ''E2'' make_weekly)) =
       [Saved (dentist\<lparr>recurrenceRules :=
          [\<lparr> EKRecurrenceRule.frequency = EKRecurrenceFrequencyWeekly,
             EKRecurrenceRule.interval = 2, recurrenceEnd = None \<rparr>]\<rparr>) EKSpanFutureEvents]
   \<and> snd (snd (delete_event (recording in_memory) (store1, []) ''E2'')) =
       [Removed dentist EKSpanThisEvent]
   \<and> eventWithIdentifier in_memory store1 ''E1'' = Some standup
   \<and> recurrenceRules standup \<noteq> []
   \<and> snd (snd (delete_event (recording in_memory) (store1, []) ''E1'')) =
       [Removed standup EKSpanFutureEvents]"
  using update_event_commit_span [OF found_E2, of no_change dentist "[]"]
    update_event_commit_span [OF found_E2, of make_weekly _ "[]"]
    update_event_commit_span [OF found_E1, of no_change standup "[]"]
  by (simp add: found_E1 found_E2 setters_make_weekly setters_no_change)
     (simp add: dentist_def standup_def)

section \<open>Deleting\<close>

text \<open>
  C8. \<open>delete_event\<close> raises \<open>NoSuchEventError(event_id)\<close> and leaves the store as it is when
  the store has no event with the identifier. When it has one, the title is read from the
  event before the removal is asked for; if the host reports success that title is
  returned, and if not, a \<open>CalendarError\<close> "delete failed" that carries the host's error is
  raised.
\<close>

theorem delete_event_outcomes:
  "(eventWithIdentifier K store event_id = None \<longrightarrow>
      delete_event K store event_id = (Inl (NoSuchEventError event_id), store))
   \<and> (eventWithIdentifier K store event_id = Some ekevent
        \<and> removeEvent_span_error K store ekevent
             (if recurrenceRules ekevent = [] then EKSpanThisEvent else EKSpanFutureEvents)
            = ((success, error), store') \<longrightarrow>
        delete_event K store event_id =
          (if success then Inr (py_str (EKEvent.title ekevent))
           else Inl (CalendarError (DeleteFailed (py_str error))), store'))"
  by (auto simp: delete_event_def find_event_def hasRecurrenceRules_def)


theorem delete_event_outcomes_witness:
  "eventWithIdentifier in_memory store1 ''E3'' = None
   \<and> delete_event in_memory store1 ''E3'' = (Inl (NoSuchEventError ''E3''), store1)
   \<and> eventWithIdentifier in_memory store1 ''E1'' = Some standup
   \<and> delete_event in_memory store1 ''E1'' = (Inr ''Standup'', store1\<lparr>held_events := [dentist]\<rparr>)
   \<and> eventWithIdentifier in_memory refusing ''E1'' = Some standup
   \<and> delete_event in_memory refusing ''E1'' =
        (Inl (CalendarError (DeleteFailed ''denied'')), refusing)"
proof -
  have gone: "delete_event in_memory store1 ''E3'' = (Inl (NoSuchEventError ''E3''), store1)"
    using delete_event_outcomes [of in_memory store1 "''E3''"] found_E3 by simp
  have removed: "removeEvent_span_error in_memory store1 standup EKSpanFutureEvents =
      ((True, None), store1\<lparr>held_events := [dentist]\<rparr>)"
    by (simp add: in_memory_commits store1_simps) (simp add: standup_def dentist_def)
  have title: "delete_event in_memory store1 ''E1'' =
      (Inr ''Standup'', store1\<lparr>held_events := [dentist]\<rparr>)"
    using delete_event_outcomes
      [of in_memory store1 "''E1''" standup True None "store1\<lparr>held_events := [dentist]\<rparr>"]
      found_E1 removed
    by (simp add: standup_def py_str_def)
  have found: "eventWithIdentifier in_memory refusing ''E1'' = Some standup"
    by (simp add: in_memory_def refusing_def store1_def standup_def)
  have denied: "removeEvent_span_error in_memory refusing standup EKSpanFutureEvents =
      ((False, Some ''denied''), refusing)"
    by (simp add: in_memory_commits refusing_def)
  have failed: "delete_event in_memory refusing ''E1'' =
      (Inl (CalendarError (DeleteFailed ''denied'')), refusing)"
    using delete_event_outcomes
      [of in_memory refusing "''E1''" standup False "Some ''denied''" refusing] found denied
    by (simp add: standup_def py_str_def)
  show ?thesis
    using gone title failed found found_E1 found_E3 by simp
qed


section \<open>Listing\<close>

lemma list_events_cases:
  "list_events K store start end' calendar_name' =
     (if truthy calendar_name'
      then (case find_calendar K store calendar_name' of
              Inl err \<Rightarrow> Inl err
            | Inr cal \<Rightarrow>
                Inr (sort_key Event.start_time (map (from_ekevent K)
                  (case eventsMatchingPredicate K store (to_nsdate K start) (to_nsdate K end')
                          (Some [cal]) of
                     None \<Rightarrow> [] | Some ek_events \<Rightarrow> ek_events))))
      else Inr (sort_key Event.start_time (map (from_ekevent K)
             (case eventsMatchingPredicate K store (to_nsdate K start) (to_nsdate K end') None of
                None \<Rightarrow> [] | Some ek_events \<Rightarrow> ek_events))))"
  by (auto simp: list_events_def Let_def split: sum.split option.split)

lemma list_events_sorted:
  "list_events K store start end' calendar_name' = Inr events
     \<Longrightarrow> sorted (map Event.start_time events)"
  by (auto simp: list_events_cases split: if_splits sum.splits)

lemma matching_window:
  "eventsMatchingPredicate in_memory store1 (to_nsdate in_memory window_start)
     (to_nsdate in_memory window_end) None = Some [standup, dentist]"
  by code_simp

lemma list_window:
  "list_events in_memory store1 window_start window_end None =
     Inr [from_ekevent in_memory dentist, from_ekevent in_memory standup]"
  by code_simp

text \<open>
  C6, as the code has it. When the calendar name is \<open>None\<close>, is empty, or resolves to a
  calendar, \<open>list_events\<close> returns the events the host matched, converted, in ascending
  order of start time, and events with equal start times stay in the order in which the
  host answered them; when the host answers nothing the result is the empty list and no
  error. When the name is not empty and resolves to no calendar, the error of
  \<open>_find_calendar\<close> is raised.
\<close>

theorem list_events_outcomes:
  "(truthy calendar_name' \<and> find_calendar K store calendar_name' = Inl err
      \<longrightarrow> list_events K store start end' calendar_name' = Inl err)
   \<and> ((truthy calendar_name' \<longrightarrow> find_calendar K store calendar_name' = Inr cal)
        \<and> matching =
            (case eventsMatchingPredicate K store (to_nsdate K start) (to_nsdate K end')
                    (if truthy calendar_name' then Some [cal] else None) of
               None \<Rightarrow> [] | Some ek_events \<Rightarrow> ek_events)
      \<longrightarrow> (\<exists>events.
             list_events K store start end' calendar_name' = Inr events
             \<and> mset events = mset (map (from_ekevent K) matching)
             \<and> sorted (map Event.start_time events)
             \<and> (\<forall>t. filter (\<lambda>e. Event.start_time e = t) events
                      = filter (\<lambda>e. Event.start_time e = t) (map (from_ekevent K) matching))
             \<and> (matching = [] \<longrightarrow> events = [])))"
proof (intro conjI impI)
  assume "truthy calendar_name' \<and> find_calendar K store calendar_name' = Inl err"
  then show "list_events K store start end' calendar_name' = Inl err"
    by (simp add: list_events_cases)
next
  assume a: "(truthy calendar_name' \<longrightarrow> find_calendar K store calendar_name' = Inr cal)
        \<and> matching =
            (case eventsMatchingPredicate K store (to_nsdate K start) (to_nsdate K end')
                    (if truthy calendar_name' then Some [cal] else None) of
               None \<Rightarrow> [] | Some ek_events \<Rightarrow> ek_events)"
  then have "list_events K store start end' calendar_name'
               = Inr (sort_key Event.start_time (map (from_ekevent K) matching))"
    by (simp add: list_events_cases)
  then show "\<exists>events.
             list_events K store start end' calendar_name' = Inr events
             \<and> mset events = mset (map (from_ekevent K) matching)
             \<and> sorted (map Event.start_time events)
             \<and> (\<forall>t. filter (\<lambda>e. Event.start_time e = t) events
                      = filter (\<lambda>e. Event.start_time e = t) (map (from_ekevent K) matching))
             \<and> (matching = [] \<longrightarrow> events = [])"
    by (simp add: sort_key_stable)
qed


theorem list_events_outcomes_witness:
  "\<not> truthy None
   \<and> (\<exists>events.
         list_events in_memory store1 window_start window_end None = Inr events
         \<and> events = [from_ekevent in_memory dentist, from_ekevent in_memory standup]
         \<and> mset events = mset (map (from_ekevent in_memory) [standup, dentist])
         \<and> sorted (map Event.start_time events))
   \<and> truthy (Some ''Nonexistent'')
   \<and> find_calendar in_memory store1 (Some ''Nonexistent'') = Inl (NoSuchCalendarError ''Nonexistent'')
   \<and> list_events in_memory store1 window_start window_end (Some ''Nonexistent'')
       = Inl (NoSuchCalendarError ''Nonexistent'')"
proof -
  have none: "\<not> truthy None"
    by (simp add: truthy_def)
  have "\<exists>events.
         list_events in_memory store1 window_start window_end None = Inr events
         \<and> mset events = mset (map (from_ekevent in_memory) [standup, dentist])
         \<and> sorted (map Event.start_time events)"
    using list_events_outcomes
      [of None in_memory store1 _ window_start window_end Home "[standup, dentist]"]
    by (simp add: none matching_window) blast
  then have listed: "\<exists>events.
         list_events in_memory store1 window_start window_end None = Inr events
         \<and> events = [from_ekevent in_memory dentist, from_ekevent in_memory standup]
         \<and> mset events = mset (map (from_ekevent in_memory) [standup, dentist])
         \<and> sorted (map Event.start_time events)"
    by (auto simp: list_window)
  have some: "truthy (Some ''Nonexistent'')"
    by (simp add: truthy_def)
  have unknown: "find_calendar in_memory store1 (Some ''Nonexistent'')
      = Inl (NoSuchCalendarError ''Nonexistent'')"
    by code_simp
  have "list_events in_memory store1 window_start window_end (Some ''Nonexistent'')
       = Inl (NoSuchCalendarError ''Nonexistent'')"
    using list_events_outcomes
      [of "Some ''Nonexistent''" in_memory store1 "NoSuchCalendarError ''Nonexistent''"
          window_start window_end]
    by (simp add: some unknown)
  with none listed some unknown show ?thesis
    by blast
qed

text \<open>
  C6 as stated fails for a name that is no calendar's title: the host would match no
  event in such a calendar, and \<open>list_events\<close> raises \<open>NoSuchCalendarError\<close>.
\<close>

theorem list_events_unknown_calendar_counterexample:
  "map EKCalendar.title (calendarsForEntityType in_memory store1) = [''Work'', ''Home'', ''Work'']
   \<and> list_events in_memory store1 window_start window_end (Some ''Nonexistent'')
       = Inl (NoSuchCalendarError ''Nonexistent'')"
  by (rule conjI) code_simp+

section \<open>Searching\<close>


text \<open>
  C9. Whatever \<open>search_events\<close> returns is in ascending order of start time: it is a
  subsequence of what \<open>list_events\<close> returned for the same window and calendar name, which
  is in that order.
\<close>

theorem search_events_sorted:
  assumes "search_events K store now keyword calendar_name' days_back days_forward = Inr events"
  shows "sorted (map Event.start_time events)
         \<and> (\<exists>listed.
               list_events K store (now - timedelta_days days_back)
                 (now + timedelta_days days_forward) calendar_name' = Inr listed
               \<and> sorted (map Event.start_time listed)
               \<and> subseq events listed)"
proof -
  from assms obtain listed P
    where listed: "list_events K store (now - timedelta_days days_back)
                     (now + timedelta_days days_forward) calendar_name' = Inr listed"
      and events: "events = filter P listed"
    by (auto simp: search_events_def Let_def split: sum.splits)
  from listed have "sorted (map Event.start_time listed)"
    by (rule list_events_sorted)
  with listed events show ?thesis
    by (auto intro: sorted_filter)
qed

theorem search_events_sorted_witness:
  "search_events in_memory store1 noon ''O'' None 30 90
     = Inr [from_ekevent in_memory dentist, from_ekevent in_memory standup]
   \<and> sorted (map Event.start_time [from_ekevent in_memory dentist, from_ekevent in_memory standup])
   \<and> Event.start_time (from_ekevent in_memory dentist)
       < Event.start_time (from_ekevent in_memory standup)"
proof -
  have found: "search_events in_memory store1 noon ''O'' None 30 90
     = Inr [from_ekevent in_memory dentist, from_ekevent in_memory standup]"
    by code_simp
  have "Event.start_time (from_ekevent in_memory dentist)
       < Event.start_time (from_ekevent in_memory standup)"
    by code_simp
  with found search_events_sorted [OF found] show ?thesis
    by simp
qed




section \<open>The empty calendar name\<close>




section \<open>The line of an event\<close>

lemma length_zero_pad [simp]: "length (zero_pad w n) = w"
  by (induction w arbitrary: n) simp_all

lemma strftime_date:
  "strftime t ''%Y-%m-%d'' =
     directive t (CHR ''Y'') @ ''-'' @ directive t (CHR ''m'') @ ''-'' @ directive t (CHR ''d'')"
  by simp

lemma strftime_datetime:
  "strftime t ''%Y-%m-%d %H:%M'' =
     strftime t ''%Y-%m-%d'' @ '' '' @ directive t (CHR ''H'') @ '':'' @ directive t (CHR ''M'')"
  by simp

lemma length_directive:
  "length (directive t (CHR ''Y'')) = 4" "length (directive t (CHR ''m'')) = 2"
  "length (directive t (CHR ''d'')) = 2" "length (directive t (CHR ''H'')) = 2"
  "length (directive t (CHR ''M'')) = 2"
  by (simp_all add: directive_def Let_def)

text \<open>
  C7, as the code has it. \<open>str(event)\<close> is the parts \<open>"{title} ({start} ~ {end})"\<close>,
  \<open>"[{calendar_name}]"\<close> if the calendar name is not empty, \<open>"@ {location}"\<close> if there is a
  location and it is not empty, and \<open>"ID: {identifier}"\<close>, joined by \<open>" | "\<close>. Start and end
  are formatted with \<open>%Y-%m-%d\<close> (ten characters) if the event is all-day and with
  \<open>%Y-%m-%d %H:%M\<close> (the same date, a space, and the time; sixteen characters) if it is
  not.
\<close>

theorem str_Event_format:
  "str_Event e =
     Event.title e
     @ '' ('' @ strftime (Event.start_time e)
                 (if Event.all_day e then ''%Y-%m-%d'' else ''%Y-%m-%d %H:%M'')
     @ '' ~ '' @ strftime (Event.end_time e)
                 (if Event.all_day e then ''%Y-%m-%d'' else ''%Y-%m-%d %H:%M'')
     @ '')''
     @ (if Event.calendar_name e = [] then [] else '' | ['' @ Event.calendar_name e @ '']'')
     @ (case Event.location e of
          None \<Rightarrow> []
        | Some l \<Rightarrow> if l = [] then [] else '' | @ '' @ l)
     @ '' | ID: '' @ identifier' e
   \<and> length (strftime t ''%Y-%m-%d'') = 10
   \<and> strftime t ''%Y-%m-%d %H:%M'' =
       strftime t ''%Y-%m-%d'' @ '' '' @ directive t (CHR ''H'') @ '':'' @ directive t (CHR ''M'')
   \<and> length (strftime t ''%Y-%m-%d %H:%M'') = 16"
proof -
  have "str_Event e =
     Event.title e
     @ '' ('' @ strftime (Event.start_time e)
                 (if Event.all_day e then ''%Y-%m-%d'' else ''%Y-%m-%d %H:%M'')
     @ '' ~ '' @ strftime (Event.end_time e)
                 (if Event.all_day e then ''%Y-%m-%d'' else ''%Y-%m-%d %H:%M'')
     @ '')''
     @ (if Event.calendar_name e = [] then [] else '' | ['' @ Event.calendar_name e @ '']'')
     @ (case Event.location e of
          None \<Rightarrow> []
        | Some l \<Rightarrow> if l = [] then [] else '' | @ '' @ l)
     @ '' | ID: '' @ identifier' e"
    unfolding str_Event_def Let_def
    by (cases "Event.location e"; cases "Event.calendar_name e = []")
       (simp_all add: truthy_def py_str_def del: strftime.simps)
  moreover have "length (strftime t ''%Y-%m-%d'') = 10"
    unfolding strftime_date by (simp add: length_directive)
  moreover have "length (strftime t ''%Y-%m-%d %H:%M'') = 16"
    unfolding strftime_datetime strftime_date by (simp add: length_directive)
  ultimately show ?thesis
    using strftime_datetime by blast
qed

text \<open>
  C7 as stated fails: the calendar and the location are set off by \<open>" | "\<close>, not by a
  space, and are left out when empty.
\<close>

theorem str_Event_separator_counterexample:
  "str_Event (from_ekevent in_memory standup)
     = ''Standup (2026-02-12 10:00 ~ 2026-02-12 10:30) | [Work] | @ Room 4 | ID: E1''
   \<and> str_Event (from_ekevent in_memory standup)
     \<noteq> ''Standup (2026-02-12 10:00 ~ 2026-02-12 10:30) [Work] @ Room 4 | ID: E1''
   \<and> str_Event (from_ekevent in_memory dentist)
     = ''Dentist (2026-02-12 09:00 ~ 2026-02-12 09:45) | [Home] | ID: E2''
   \<and> str_Event (from_ekevent in_memory (dentist\<lparr>isAllDay := True, calendar := None\<rparr>))
     = ''Dentist (2026-02-12 ~ 2026-02-12) | ID: E2''"
proof -
  have standup: "str_Event (from_ekevent in_memory standup)
     = ''Standup (2026-02-12 10:00 ~ 2026-02-12 10:30) | [Work] | @ Room 4 | ID: E1''"
    by code_simp
  have dentist: "str_Event (from_ekevent in_memory dentist)
     = ''Dentist (2026-02-12 09:00 ~ 2026-02-12 09:45) | [Home] | ID: E2''"
    by code_simp
  have all_day: "str_Event (from_ekevent in_memory (dentist\<lparr>isAllDay := True, calendar := None\<rparr>))
     = ''Dentist (2026-02-12 ~ 2026-02-12) | ID: E2''"
    by code_simp
  show ?thesis
    unfolding standup dentist all_day by simp
qed

end
